theory Spec2Isabelle
  imports Main
begin

section \<open>Reactions and statistics of the posts application\<close>

text \<open>
  A shallow embedding of \<^verbatim>\<open>posts/models.py\<close> and of the two function views
  \<^verbatim>\<open>toggle_like\<close> and \<^verbatim>\<open>post_stats\<close> of \<^verbatim>\<open>posts/views.py\<close>.
  The database is an explicit state: one list of rows per table, in insertion order.
  A view takes the database and returns its response together with the database it
  leaves behind. An exception that leaves the view body is the \<open>Inl\<close> branch of the
  result.
\<close>

subsection \<open>Data model\<close>

type_synonym datetime = nat

text \<open>Values of a parsed request body and of a response body.\<close>

datatype jvalue = JNull | JBool bool | JInt int | JStr string | JDateTime datetime

record User =
  user_id :: nat
  username :: string

text \<open>
  \<^verbatim>\<open>Post\<close>: the columns \<^verbatim>\<open>latitude\<close> and \<^verbatim>\<open>longitude\<close> are floating point and are
  read by neither view; they are left out. A foreign key to a post or to an author is
  the primary key of the row it points to.
\<close>

record Post =
  post_id :: nat
  post_author :: nat
  post_text :: string
  post_image :: string
  post_created_at :: datetime
  location_name :: string

text \<open>
  \<^verbatim>\<open>Like\<close>: \<^verbatim>\<open>like.user\<close> is the user object itself, since the serializer prints
  it; queries compare users by primary key.
\<close>

record Like =
  like_id :: nat
  like_user :: User
  like_post :: nat
  reaction :: string
  like_created_at :: datetime

record Comment =
  comment_id :: nat
  comment_author :: nat
  comment_post :: nat
  comment_text :: string
  comment_created_at :: datetime

definition LIKE :: string where
  "LIKE = ''like''"

definition DISLIKE :: string where
  "DISLIKE = ''dislike''"

text \<open>The tables, and the counter behind the auto-incremented key of \<^verbatim>\<open>Like\<close>.\<close>

record db =
  posts :: "Post list"
  likes :: "Like list"
  comments :: "Comment list"
  like_seq :: nat

record request =
  req_user :: "User option"
  req_data :: "string \<rightharpoonup> jvalue"

record response =
  status_code :: nat
  body :: "(string \<times> jvalue) list"

datatype exn = NotAuthenticated | Http404 | MultipleObjectsReturned

text \<open>
  The status the framework answers with when an exception leaves a view, as the
  docstrings of the views list them (403 unauthenticated, 404 post not found);
  any other exception is a server error.
\<close>

fun http_status :: "exn + response \<Rightarrow> nat" where
  "http_status (Inl NotAuthenticated) = 403"
| "http_status (Inl Http404) = 404"
| "http_status (Inl MultipleObjectsReturned) = 500"
| "http_status (Inr r) = status_code r"

subsection \<open>Queries and writes\<close>

text \<open>\<^verbatim>\<open>get_object_or_404(Post, id=post_id)\<close>\<close>

definition get_object_or_404 :: "db \<Rightarrow> nat \<Rightarrow> exn + Post" where
  "get_object_or_404 d pid =
     (case find (\<lambda>p. post_id p = pid) (posts d) of
        None \<Rightarrow> Inl Http404
      | Some p \<Rightarrow> Inr p)"

text \<open>\<^verbatim>\<open>Like.objects.filter(user=user, post=post)\<close>\<close>

definition likes_of_pair :: "db \<Rightarrow> nat \<Rightarrow> nat \<Rightarrow> Like list" where
  "likes_of_pair d uid pid =
     filter (\<lambda>l. user_id (like_user l) = uid \<and> like_post l = pid) (likes d)"

text \<open>
  \<^verbatim>\<open>Like.objects.get_or_create(user=user, post=post, defaults={'reaction': reaction})\<close>:
  the row of the pair when there is exactly one, a new row (next key, creation time
  from the clock) when there is none, and \<^verbatim>\<open>MultipleObjectsReturned\<close> when the
  query finds several.
\<close>

definition get_or_create ::
  "db \<Rightarrow> datetime \<Rightarrow> User \<Rightarrow> Post \<Rightarrow> string \<Rightarrow> exn + ((Like \<times> bool) \<times> db)" where
  "get_or_create d now u p r =
     (case likes_of_pair d (user_id u) (post_id p) of
        [] \<Rightarrow>
          (let l = \<lparr>like_id = Suc (like_seq d), like_user = u, like_post = post_id p,
                    reaction = r, like_created_at = now\<rparr>
           in Inr ((l, True), d\<lparr>likes := likes d @ [l], like_seq := Suc (like_seq d)\<rparr>))
      | [l] \<Rightarrow> Inr ((l, False), d)
      | _ \<Rightarrow> Inl MultipleObjectsReturned)"

text \<open>\<^verbatim>\<open>like.delete()\<close>: removes the row with the key of the object.\<close>

definition delete_like :: "db \<Rightarrow> Like \<Rightarrow> db" where
  "delete_like d l = d\<lparr>likes := filter (\<lambda>x. like_id x \<noteq> like_id l) (likes d)\<rparr>"

text \<open>
  \<^verbatim>\<open>like.save()\<close> of an object that has a key: the row with that key takes the
  object's values; when there is no such row, the object is inserted.
\<close>

definition save_like :: "db \<Rightarrow> Like \<Rightarrow> db" where
  "save_like d l =
     (if list_ex (\<lambda>x. like_id x = like_id l) (likes d)
      then d\<lparr>likes := map (\<lambda>x. if like_id x = like_id l then l else x) (likes d)\<rparr>
      else d\<lparr>likes := likes d @ [l]\<rparr>)"

text \<open>\<^verbatim>\<open>LikeSerializer(like).data\<close>, fields \<^verbatim>\<open>id, user, post, reaction, created_at\<close>.\<close>

definition LikeSerializer :: "Like \<Rightarrow> (string \<times> jvalue) list" where
  "LikeSerializer l =
     [(''id'', JInt (int (like_id l))),
      (''user'', JStr (username (like_user l))),
      (''post'', JInt (int (like_post l))),
      (''reaction'', JStr (reaction l)),
      (''created_at'', JDateTime (like_created_at l))]"

text \<open>\<^verbatim>\<open>Response(data)\<close> answers 200 unless a status is given.\<close>

definition Response :: "(string \<times> jvalue) list \<Rightarrow> response" where
  "Response b = \<lparr>status_code = 200, body = b\<rparr>"

text \<open>
  The message of the 400 answer, a Cyrillic literal in the source, as its UTF-8 bytes.
\<close>

definition invalid_reaction_message :: string where
  "invalid_reaction_message =
     [CHR 0xD0, CHR 0x9D, CHR 0xD0, CHR 0xB5, CHR 0xD0, CHR 0xB2, CHR 0xD0, CHR 0xB5, CHR 0xD1,
      CHR 0x80, CHR 0xD0, CHR 0xBD, CHR 0xD0, CHR 0xB0, CHR 0xD1, CHR 0x8F, CHR 0x20, CHR 0xD1,
      CHR 0x80, CHR 0xD0, CHR 0xB5, CHR 0xD0, CHR 0xB0, CHR 0xD0, CHR 0xBA, CHR 0xD1, CHR 0x86,
      CHR 0xD0, CHR 0xB8, CHR 0xD1, CHR 0x8F, CHR 0x2E, CHR 0x20, CHR 0xD0, CHR 0x98, CHR 0xD1,
      CHR 0x81, CHR 0xD0, CHR 0xBF, CHR 0xD0, CHR 0xBE, CHR 0xD0, CHR 0xBB, CHR 0xD1, CHR 0x8C,
      CHR 0xD0, CHR 0xB7, CHR 0xD1, CHR 0x83, CHR 0xD0, CHR 0xB9, CHR 0xD1, CHR 0x82, CHR 0xD0,
      CHR 0xB5, CHR 0x20, CHR 0x22, CHR 0x6C, CHR 0x69, CHR 0x6B, CHR 0x65, CHR 0x22, CHR 0x20,
      CHR 0xD0, CHR 0xB8, CHR 0xD0, CHR 0xBB, CHR 0xD0, CHR 0xB8, CHR 0x20, CHR 0x22, CHR 0x64,
      CHR 0x69, CHR 0x73, CHR 0x6C, CHR 0x69, CHR 0x6B, CHR 0x65, CHR 0x22, CHR 0x2E]"

text \<open>The string of a request value; the view reads it only after the membership test.\<close>

fun the_str :: "jvalue \<Rightarrow> string" where
  "the_str (JStr s) = s"
| "the_str _ = []"

text \<open>\<^verbatim>\<open>request.data.get('reaction', Like.LIKE)\<close>\<close>

definition requested_reaction :: "request \<Rightarrow> jvalue" where
  "requested_reaction rq =
     (case req_data rq ''reaction'' of None \<Rightarrow> JStr LIKE | Some v \<Rightarrow> v)"

subsection \<open>The views\<close>

text \<open>
  \<^verbatim>\<open>toggle_like(request, post_id)\<close> under its decorators: the permission class
  \<^verbatim>\<open>IsAuthenticated\<close> is checked before the body runs. \<open>now\<close> is the clock read
  by \<^verbatim>\<open>auto_now_add\<close> when a row is created.
\<close>

definition toggle_like :: "db \<Rightarrow> datetime \<Rightarrow> request \<Rightarrow> nat \<Rightarrow> (exn + response) \<times> db" where
  "toggle_like d now rq pid =
     (case req_user rq of
        None \<Rightarrow> (Inl NotAuthenticated, d)
      | Some u \<Rightarrow>
          (case get_object_or_404 d pid of
             Inl e \<Rightarrow> (Inl e, d)
           | Inr post \<Rightarrow>
               (let r = requested_reaction rq in
                if r \<notin> set [JStr LIKE, JStr DISLIKE]
                then (Inr \<lparr>status_code = 400,
                           body = [(''error'', JStr invalid_reaction_message)]\<rparr>, d)
                else
                  (case get_or_create d now u post (the_str r) of
                     Inl e \<Rightarrow> (Inl e, d)
                   | Inr ((like, created), d1) \<Rightarrow>
                       if \<not> created then
                         (if reaction like = the_str r
                          then (Inr (Response [(''status'', JStr ''reaction removed'')]),
                                delete_like d1 like)
                          else (let like' = like\<lparr>reaction := the_str r\<rparr>
                                in (Inr (Response (LikeSerializer like')), save_like d1 like')))
                       else (Inr (Response (LikeSerializer like)), d1)))))"

text \<open>\<^verbatim>\<open>post_stats(request, post_id)\<close>: a read; the database is not returned.\<close>

definition post_stats :: "db \<Rightarrow> nat \<Rightarrow> exn + response" where
  "post_stats d pid =
     (case get_object_or_404 d pid of
        Inl e \<Rightarrow> Inl e
      | Inr post \<Rightarrow>
          Inr (Response
            [(''likes_count'',
                JInt (int (length (filter (\<lambda>l. like_post l = post_id post \<and> reaction l = LIKE)
                                     (likes d))))),
             (''dislikes_count'',
                JInt (int (length (filter (\<lambda>l. like_post l = post_id post \<and> reaction l = DISLIKE)
                                     (likes d))))),
             (''comments_count'',
                JInt (int (length (filter (\<lambda>c. comment_post c = post_id post) (comments d))))),
             (''total_reactions'',
                JInt (int (length (filter (\<lambda>l. like_post l = post_id post) (likes d)))))]))"

subsection \<open>Integrity constraints and runs\<close>

text \<open>
  What the schema of \<^verbatim>\<open>models.py\<close> guarantees of the table of reactions: the
  primary key is unique and was drawn from the counter, \<^verbatim>\<open>unique_together =
  ['user', 'post']\<close> holds, and every stored reaction is one of \<^verbatim>\<open>REACTION_CHOICES\<close>.
\<close>

definition pk_ok :: "db \<Rightarrow> bool" where
  "pk_ok d \<longleftrightarrow>
     distinct (map like_id (likes d)) \<and> list_all (\<lambda>l. like_id l \<le> like_seq d) (likes d)"

definition unique_together :: "db \<Rightarrow> bool" where
  "unique_together d \<longleftrightarrow>
     distinct (map (\<lambda>l. (user_id (like_user l), like_post l)) (likes d))"

definition choices_ok :: "db \<Rightarrow> bool" where
  "choices_ok d \<longleftrightarrow> list_all (\<lambda>l. reaction l = LIKE \<or> reaction l = DISLIKE) (likes d)"

definition db_ok :: "db \<Rightarrow> bool" where
  "db_ok d \<longleftrightarrow> pk_ok d \<and> unique_together d \<and> choices_ok d"

text \<open>A sequence of calls of \<^verbatim>\<open>toggle_like\<close>, each with its clock, request and post.\<close>

fun run_toggles :: "db \<Rightarrow> (datetime \<times> request \<times> nat) list \<Rightarrow> db" where
  "run_toggles d [] = d"
| "run_toggles d ((now, rq, pid) # cs) = run_toggles (snd (toggle_like d now rq pid)) cs"

text \<open>The reaction a pair has stored, if any: what the toggle reads before it decides.\<close>

definition stored_reaction :: "db \<Rightarrow> nat \<Rightarrow> nat \<Rightarrow> string option" where
  "stored_reaction d uid pid =
     (case likes_of_pair d uid pid of [] \<Rightarrow> None | l # _ \<Rightarrow> Some (reaction l))"

text \<open>
  The transition table of the specification, written from its words: no reaction
  becomes the requested kind, the requested kind becomes no reaction, the other kind
  becomes the requested kind.
\<close>

fun spec_transition :: "string option \<Rightarrow> string \<Rightarrow> string option" where
  "spec_transition None k = Some k"
| "spec_transition (Some c) k = (if c = k then None else Some k)"

text \<open>A small database for the examples: one post, and two users who may react.\<close>

definition alice :: User where
  "alice = \<lparr>user_id = 1, username = ''alice''\<rparr>"

definition bob :: User where
  "bob = \<lparr>user_id = 2, username = ''bob''\<rparr>"

definition post1 :: Post where
  "post1 = \<lparr>post_id = 1, post_author = 1, post_text = ''hello'', post_image = ''posts/images/a.png'',
             post_created_at = 10, location_name = []\<rparr>"

definition db0 :: db where
  "db0 = \<lparr>posts = [post1], likes = [], comments = [], like_seq = 0\<rparr>"

definition rq_of :: "User \<Rightarrow> string \<Rightarrow> request" where
  "rq_of u k = \<lparr>req_user = Some u, req_data = [''reaction'' \<mapsto> JStr k]\<rparr>"

definition db_liked :: db where
  "db_liked = \<lparr>posts = [post1],
                likes = [\<lparr>like_id = 1, like_user = alice, like_post = 1, reaction = ''like'',
                          like_created_at = 5\<rparr>],
                comments = [], like_seq = 1\<rparr>"

text \<open>The post of the example with two likes, one dislike and two comments.\<close>

definition db_stats :: db where
  "db_stats = \<lparr>posts = [post1],
                likes = [\<lparr>like_id = 1, like_user = alice, like_post = 1, reaction = ''like'',
                          like_created_at = 5\<rparr>,
                         \<lparr>like_id = 2, like_user = bob, like_post = 1, reaction = ''like'',
                          like_created_at = 6\<rparr>,
                         \<lparr>like_id = 3, like_user = \<lparr>user_id = 3, username = ''carol''\<rparr>,
                          like_post = 1, reaction = ''dislike'', like_created_at = 7\<rparr>],
                comments = [\<lparr>comment_id = 1, comment_author = 1, comment_post = 1,
                             comment_text = ''first'', comment_created_at = 8\<rparr>,
                            \<lparr>comment_id = 2, comment_author = 2, comment_post = 1,
                             comment_text = ''second'', comment_created_at = 9\<rparr>],
                like_seq = 3\<rparr>"

text \<open>
  The response body the specification describes for a successful toggle, written from
  its words: a \<^verbatim>\<open>status\<close> field that names the transition taken.
\<close>

definition spec_status_named :: "(string \<times> jvalue) list \<Rightarrow> bool" where
  "spec_status_named b \<longleftrightarrow>
     map_of b ''status'' \<in> set [Some (JStr ''created''), Some (JStr ''changed''),
                                Some (JStr ''removed'')]"

section \<open>Properties\<close>

subsection \<open>Auxiliary facts\<close>

lemma distinct_map_filter_le1:
  "distinct (map f xs) \<Longrightarrow> length (filter (\<lambda>x. f x = k) xs) \<le> Suc 0"
proof (induction xs)
  case Nil show ?case by simp
next
  case (Cons a xs)
  show ?case
  proof (cases "f a = k")
    case True
    with Cons.prems have "filter (\<lambda>x. f x = k) xs = []"
      by (auto simp: filter_empty_conv image_iff)
    with True show ?thesis by simp
  next
    case False
    with Cons show ?thesis by simp
  qed
qed

lemma likes_of_pair_key:
  "likes_of_pair d uid pid =
     filter (\<lambda>l. (user_id (like_user l), like_post l) = (uid, pid)) (likes d)"
  by (simp add: likes_of_pair_def)

lemma likes_of_pair_cases:
  assumes "unique_together d"
  shows "likes_of_pair d uid pid = [] \<or> (\<exists>l. likes_of_pair d uid pid = [l])"
proof -
  have "length (likes_of_pair d uid pid) \<le> Suc 0"
    unfolding likes_of_pair_key using assms
    by (simp only: unique_together_def distinct_map_filter_le1)
  then show ?thesis
    by (cases "likes_of_pair d uid pid") (auto simp: length_Suc_conv)
qed


lemma toggle_like_cases:
  assumes "req_user rq = Some u" and "find (\<lambda>p. post_id p = pid) (posts d) = Some p"
    and "requested_reaction rq = JStr k" and "k = LIKE \<or> k = DISLIKE"
  shows "toggle_like d now rq pid =
     (case likes_of_pair d (user_id u) (post_id p) of
        [] \<Rightarrow>
          (Inr (Response (LikeSerializer
             \<lparr>like_id = Suc (like_seq d), like_user = u, like_post = post_id p,
              reaction = k, like_created_at = now\<rparr>)),
           d\<lparr>likes := likes d @ [\<lparr>like_id = Suc (like_seq d), like_user = u,
                like_post = post_id p, reaction = k, like_created_at = now\<rparr>],
             like_seq := Suc (like_seq d)\<rparr>)
      | [l] \<Rightarrow>
          (if reaction l = k
           then (Inr (Response [(''status'', JStr ''reaction removed'')]), delete_like d l)
           else (Inr (Response (LikeSerializer (l\<lparr>reaction := k\<rparr>))),
                 save_like d (l\<lparr>reaction := k\<rparr>)))
      | _ \<Rightarrow> (Inl MultipleObjectsReturned, d))"
  using assms
  by (auto simp: toggle_like_def get_object_or_404_def get_or_create_def Let_def
           split: list.splits)

lemma find_post_id: "find (\<lambda>p. post_id p = pid) ps = Some p \<Longrightarrow> post_id p = pid"
  by (induction ps) (auto split: if_splits)

lemma find_post_None: "find (\<lambda>p. post_id p = pid) ps = None \<longleftrightarrow> pid \<notin> set (map post_id ps)"
  by (auto simp: find_None_iff)

lemma find_post_Some:
  "pid \<in> set (map post_id ps) \<Longrightarrow> \<exists>p. find (\<lambda>p. post_id p = pid) ps = Some p \<and> post_id p = pid"
  by (induction ps) auto

subsection \<open>Errors\<close>

text \<open>
  C10. A call of \<^verbatim>\<open>toggle_like\<close> by an authenticated user whose post identifier
  references no post and whose requested reaction is at the same time not one of
  \<^verbatim>\<open>like\<close>, \<^verbatim>\<open>dislike\<close> fails with \<^verbatim>\<open>Http404\<close> (status 404), not with
  status 400: the post is looked up before the reaction is validated.
\<close>

theorem toggle_like_post_checked_first:
  assumes "req_user rq = Some u"
    and "pid \<notin> set (map post_id (posts d))"
    and "requested_reaction rq \<notin> set [JStr LIKE, JStr DISLIKE]"
  shows "toggle_like d now rq pid = (Inl Http404, d)
       \<and> http_status (fst (toggle_like d now rq pid)) = 404
       \<and> http_status (fst (toggle_like d now rq pid)) \<noteq> 400"
proof -
  from assms(2) have "find (\<lambda>p. post_id p = pid) (posts d) = None"
    by (simp add: find_post_None)
  with assms(1) have "toggle_like d now rq pid = (Inl Http404, d)"
    by (simp add: toggle_like_def get_object_or_404_def)
  then show ?thesis by simp
qed

theorem toggle_like_post_checked_first_witness:
  "toggle_like db0 5 (rq_of alice ''angry'') 2 = (Inl Http404, db0)
   \<and> http_status (fst (toggle_like db0 5 (rq_of alice ''angry'') 2)) = 404
   \<and> http_status (fst (toggle_like db0 5 (rq_of alice ''angry'') 2)) \<noteq> 400"
proof -
  have a: "req_user (rq_of alice ''angry'') = Some alice"
    by (simp add: rq_of_def)
  have b: "(2::nat) \<notin> set (map post_id (posts db0))"
    by (simp add: db0_def post1_def)
  have c: "requested_reaction (rq_of alice ''angry'') \<notin> set [JStr LIKE, JStr DISLIKE]"
    by (simp add: requested_reaction_def rq_of_def LIKE_def DISLIKE_def)
  show ?thesis
    by (rule toggle_like_post_checked_first [OF a b c])
qed

text \<open>
  C6. For a post identifier that references no post, \<^verbatim>\<open>post_stats\<close> fails with
  \<^verbatim>\<open>Http404\<close> (status 404) and so does \<^verbatim>\<open>toggle_like\<close> for a caller who passed
  the permission check; \<^verbatim>\<open>toggle_like\<close> leaves the database as it was, whoever
  calls, and \<^verbatim>\<open>post_stats\<close> only reads.
\<close>

theorem missing_post_not_found:
  assumes "pid \<notin> set (map post_id (posts d))"
  shows "post_stats d pid = Inl Http404
       \<and> http_status (post_stats d pid) = 404
       \<and> snd (toggle_like d now rq pid) = d
       \<and> (req_user rq \<noteq> None \<longrightarrow>
            fst (toggle_like d now rq pid) = Inl Http404
          \<and> http_status (fst (toggle_like d now rq pid)) = 404)"
proof -
  from assms have nf: "find (\<lambda>p. post_id p = pid) (posts d) = None"
    by (simp add: find_post_None)
  then have s: "post_stats d pid = Inl Http404"
    by (simp add: post_stats_def get_object_or_404_def)
  from nf have t: "toggle_like d now rq pid =
      (case req_user rq of None \<Rightarrow> (Inl NotAuthenticated, d) | Some u \<Rightarrow> (Inl Http404, d))"
    by (simp add: toggle_like_def get_object_or_404_def split: option.splits)
  show ?thesis
    using s t by (auto split: option.splits)
qed

theorem missing_post_not_found_witness:
  "post_stats db0 2 = Inl Http404
   \<and> toggle_like db0 5 (rq_of bob ''like'') 2 = (Inl Http404, db0)
   \<and> http_status (fst (toggle_like db0 5 (rq_of bob ''like'') 2)) = 404"
proof -
  have b: "(2::nat) \<notin> set (map post_id (posts db0))"
    by (simp add: db0_def post1_def)
  have u: "req_user (rq_of bob ''like'') \<noteq> None"
    by (simp add: rq_of_def)
  show ?thesis
    using missing_post_not_found [OF b, of 5 "rq_of bob ''like''"] u
    by (simp add: prod_eq_iff)
qed

text \<open>
  C5. A call of \<^verbatim>\<open>toggle_like\<close> on an existing post whose \<^verbatim>\<open>reaction\<close> field is
  present but is neither \<^verbatim>\<open>like\<close> nor \<^verbatim>\<open>dislike\<close> is answered with status 400,
  leaves the database (hence every row of reactions) unchanged, and \<^verbatim>\<open>post_stats\<close>
  answers afterwards what it answered before, for every post.
\<close>

theorem toggle_like_invalid_kind:
  assumes "req_user rq = Some u"
    and "pid \<in> set (map post_id (posts d))"
    and "req_data rq ''reaction'' = Some v"
    and "v \<noteq> JStr LIKE" and "v \<noteq> JStr DISLIKE"
  shows "toggle_like d now rq pid =
           (Inr \<lparr>status_code = 400, body = [(''error'', JStr invalid_reaction_message)]\<rparr>, d)
       \<and> http_status (fst (toggle_like d now rq pid)) = 400
       \<and> likes (snd (toggle_like d now rq pid)) = likes d
       \<and> (\<forall>q. post_stats (snd (toggle_like d now rq pid)) q = post_stats d q)"
proof -
  from assms(2) obtain p where "find (\<lambda>p. post_id p = pid) (posts d) = Some p"
    using find_post_Some by blast
  with assms(1,3,4,5) have "toggle_like d now rq pid =
      (Inr \<lparr>status_code = 400, body = [(''error'', JStr invalid_reaction_message)]\<rparr>, d)"
    by (simp add: toggle_like_def get_object_or_404_def requested_reaction_def)
  then show ?thesis by simp
qed

theorem toggle_like_invalid_kind_witness:
  "toggle_like db0 5 (rq_of alice ''angry'') 1 =
     (Inr \<lparr>status_code = 400, body = [(''error'', JStr invalid_reaction_message)]\<rparr>, db0)
   \<and> likes (snd (toggle_like db0 5 (rq_of alice ''angry'') 1)) = []
   \<and> post_stats (snd (toggle_like db0 5 (rq_of alice ''angry'') 1)) 1 = post_stats db0 1"
proof -
  have a: "req_user (rq_of alice ''angry'') = Some alice"
    by (simp add: rq_of_def)
  have b: "(1::nat) \<in> set (map post_id (posts db0))"
    by (simp add: db0_def post1_def)
  have c: "req_data (rq_of alice ''angry'') ''reaction'' = Some (JStr ''angry'')"
    by (simp add: rq_of_def)
  have d: "JStr ''angry'' \<noteq> JStr LIKE" "JStr ''angry'' \<noteq> JStr DISLIKE"
    by (simp_all add: LIKE_def DISLIKE_def)
  have e: "likes db0 = []"
    by (simp add: db0_def)
  show ?thesis
    using toggle_like_invalid_kind [OF a b c d, of 5] e by simp
qed

text \<open>No exception of the views is answered with status 400.\<close>

lemma http_status_exn: "http_status (Inl e) \<noteq> 400"
  by (cases e) simp_all

text \<open>
  C8. When the \<^verbatim>\<open>reaction\<close> field is absent from the request, the requested kind
  is \<^verbatim>\<open>like\<close>: the call does what the same call with \<^verbatim>\<open>reaction = like\<close> does,
  and it is not rejected with status 400.
\<close>

theorem toggle_like_default_kind:
  assumes "req_data rq ''reaction'' = None"
  shows "requested_reaction rq = JStr LIKE
       \<and> toggle_like d now rq pid =
           toggle_like d now (rq\<lparr>req_data := (req_data rq)(''reaction'' \<mapsto> JStr LIKE)\<rparr>) pid
       \<and> http_status (fst (toggle_like d now rq pid)) \<noteq> 400"
proof -
  have r: "requested_reaction rq = JStr LIKE"
    using assms by (simp add: requested_reaction_def)
  have e: "toggle_like d now rq pid =
           toggle_like d now (rq\<lparr>req_data := (req_data rq)(''reaction'' \<mapsto> JStr LIKE)\<rparr>) pid"
  proof -
    let ?rq = "rq\<lparr>req_data := (req_data rq)(''reaction'' \<mapsto> JStr LIKE)\<rparr>"
    have a: "requested_reaction ?rq = requested_reaction rq"
      using assms by (simp add: requested_reaction_def)
    have b: "req_user ?rq = req_user rq"
      by simp
    show ?thesis
      unfolding toggle_like_def a b ..
  qed
  have s: "http_status (fst (toggle_like d now rq pid)) \<noteq> 400"
    using r
    by (cases "get_or_create d now (the (req_user rq)) (projr (get_object_or_404 d pid)) LIKE")
       (auto simp: toggle_like_def Response_def Let_def http_status_exn
             split: option.splits sum.splits)
  show ?thesis using r e s by blast
qed

theorem toggle_like_default_kind_witness:
  "toggle_like db0 5 \<lparr>req_user = Some alice, req_data = Map.empty\<rparr> 1 =
     toggle_like db0 5 (rq_of alice ''like'') 1
   \<and> likes (snd (toggle_like db0 5 \<lparr>req_user = Some alice, req_data = Map.empty\<rparr> 1)) =
       [\<lparr>like_id = 1, like_user = alice, like_post = 1, reaction = ''like'', like_created_at = 5\<rparr>]"
proof -
  have a: "req_data \<lparr>req_user = Some alice, req_data = Map.empty\<rparr> ''reaction'' = None"
    by simp
  have b: "likes (snd (toggle_like db0 5 (rq_of alice ''like'') 1)) =
       [\<lparr>like_id = 1, like_user = alice, like_post = 1, reaction = ''like'', like_created_at = 5\<rparr>]"
    by (simp add: toggle_like_def get_object_or_404_def get_or_create_def likes_of_pair_def
          requested_reaction_def rq_of_def db0_def post1_def LIKE_def DISLIKE_def Let_def)
  show ?thesis
    using toggle_like_default_kind [OF a, of db0 5 1] b
    by (simp add: rq_of_def LIKE_def)
qed

subsection \<open>The integrity constraints are preserved\<close>

lemma LIKE_neq_DISLIKE: "LIKE \<noteq> DISLIKE"
  by (simp add: LIKE_def DISLIKE_def)

lemma likes_of_pair_set:
  "l \<in> set (likes_of_pair d uid pid) \<longleftrightarrow>
     l \<in> set (likes d) \<and> user_id (like_user l) = uid \<and> like_post l = pid"
  by (auto simp: likes_of_pair_def)

lemma likes_of_pair_single:
  assumes "likes_of_pair d uid pid = [l]"
  shows "l \<in> set (likes d)" and "user_id (like_user l) = uid" and "like_post l = pid"
proof -
  have "l \<in> set (likes_of_pair d uid pid)"
    using assms by simp
  then show "l \<in> set (likes d)" and "user_id (like_user l) = uid" and "like_post l = pid"
    by (simp_all add: likes_of_pair_set)
qed

lemma likes_of_pair_empty:
  assumes "likes_of_pair d uid pid = []"
  shows "(uid, pid) \<notin> set (map (\<lambda>l. (user_id (like_user l), like_post l)) (likes d))"
  using assms by (auto simp: likes_of_pair_def filter_empty_conv)

lemma db_ok_create:
  assumes ok: "db_ok d" and none: "likes_of_pair d (user_id u) pid = []"
    and k: "k = LIKE \<or> k = DISLIKE"
  shows "db_ok (d\<lparr>likes := likes d @ [\<lparr>like_id = Suc (like_seq d), like_user = u,
                     like_post = pid, reaction = k, like_created_at = now\<rparr>],
                  like_seq := Suc (like_seq d)\<rparr>)"
proof -
  from ok have le: "\<forall>l \<in> set (likes d). like_id l \<le> like_seq d"
    by (simp add: db_ok_def pk_ok_def list_all_iff)
  then have fresh: "Suc (like_seq d) \<notin> set (map like_id (likes d))"
    by auto
  have pk: "pk_ok (d\<lparr>likes := likes d @ [\<lparr>like_id = Suc (like_seq d), like_user = u,
                     like_post = pid, reaction = k, like_created_at = now\<rparr>],
                  like_seq := Suc (like_seq d)\<rparr>)"
    using ok fresh le by (auto simp: db_ok_def pk_ok_def list_all_iff)
  have ut: "unique_together (d\<lparr>likes := likes d @ [\<lparr>like_id = Suc (like_seq d), like_user = u,
                     like_post = pid, reaction = k, like_created_at = now\<rparr>],
                  like_seq := Suc (like_seq d)\<rparr>)"
    using ok likes_of_pair_empty [OF none] by (simp add: db_ok_def unique_together_def)
  have ch: "choices_ok (d\<lparr>likes := likes d @ [\<lparr>like_id = Suc (like_seq d), like_user = u,
                     like_post = pid, reaction = k, like_created_at = now\<rparr>],
                  like_seq := Suc (like_seq d)\<rparr>)"
    using ok k by (auto simp: db_ok_def choices_ok_def)
  from pk ut ch show ?thesis
    by (simp only: db_ok_def simp_thms)
qed

lemma db_ok_delete:
  assumes "db_ok d"
  shows "db_ok (delete_like d l)"
  using assms
  by (auto simp: db_ok_def pk_ok_def unique_together_def choices_ok_def delete_like_def
        distinct_map_filter list_all_iff)

lemma save_like_existing:
  assumes "l \<in> set (likes d)"
  shows "save_like d (l\<lparr>reaction := k\<rparr>) =
           d\<lparr>likes := map (\<lambda>x. if like_id x = like_id l then l\<lparr>reaction := k\<rparr> else x) (likes d)\<rparr>"
proof -
  have "list_ex (\<lambda>x. like_id x = like_id (l\<lparr>reaction := k\<rparr>)) (likes d)"
    using assms by (auto simp: list_ex_iff)
  then show ?thesis
    by (simp add: save_like_def)
qed

lemma same_key_same_row:
  assumes "distinct (map like_id xs)" and "l \<in> set xs" and "x \<in> set xs"
    and "like_id x = like_id l"
  shows "x = l"
  using assms by (meson distinct_map inj_on_def)

lemma map_update_row:
  assumes "distinct (map like_id xs)" and "l \<in> set xs"
  shows "map (\<lambda>x. if like_id x = like_id l then l' else x) xs =
         map (\<lambda>x. if x = l then l' else x) xs"
  using assms by (auto dest: same_key_same_row)

lemma db_ok_save:
  assumes ok: "db_ok d" and l: "l \<in> set (likes d)" and k: "k = LIKE \<or> k = DISLIKE"
  shows "db_ok (save_like d (l\<lparr>reaction := k\<rparr>))"
proof -
  let ?g = "\<lambda>x. if x = l then l\<lparr>reaction := k\<rparr> else x"
  from ok have dist: "distinct (map like_id (likes d))"
    by (simp add: db_ok_def pk_ok_def)
  have eq: "likes (save_like d (l\<lparr>reaction := k\<rparr>)) = map ?g (likes d)"
    by (simp add: save_like_existing [OF l] map_update_row [OF dist l])
  have seq: "like_seq (save_like d (l\<lparr>reaction := k\<rparr>)) = like_seq d"
    by (simp add: save_like_existing [OF l])
  have ids: "map like_id (map ?g (likes d)) = map like_id (likes d)"
    by simp
  have keys: "map (\<lambda>l. (user_id (like_user l), like_post l)) (map ?g (likes d)) =
              map (\<lambda>l. (user_id (like_user l), like_post l)) (likes d)"
    by simp
  have pk: "pk_ok (save_like d (l\<lparr>reaction := k\<rparr>))"
    using ok unfolding pk_ok_def db_ok_def eq seq ids
    by (auto simp: list_all_iff)
  have ut: "unique_together (save_like d (l\<lparr>reaction := k\<rparr>))"
    using ok unfolding unique_together_def db_ok_def eq keys by simp
  have ch: "choices_ok (save_like d (l\<lparr>reaction := k\<rparr>))"
    using ok k unfolding choices_ok_def db_ok_def eq
    by (auto simp: list_all_iff)
  from pk ut ch show ?thesis
    by (simp only: db_ok_def simp_thms)
qed

lemma toggle_like_db_ok:
  assumes ok: "db_ok d"
  shows "db_ok (snd (toggle_like d now rq pid))"
proof (cases "req_user rq")
  case None
  with ok show ?thesis by (simp add: toggle_like_def)
next
  case u: (Some u)
  show ?thesis
  proof (cases "find (\<lambda>p. post_id p = pid) (posts d)")
    case None
    with u ok show ?thesis
      by (simp add: toggle_like_def get_object_or_404_def)
  next
    case p: (Some p)
    then have pid: "post_id p = pid"
      by (rule find_post_id)
    show ?thesis
    proof (cases "requested_reaction rq \<in> set [JStr LIKE, JStr DISLIKE]")
      case False
      with u p ok show ?thesis
        by (simp add: toggle_like_def get_object_or_404_def)
    next
      case True
      then obtain k where k: "requested_reaction rq = JStr k" "k = LIKE \<or> k = DISLIKE"
        by auto
      note tc = toggle_like_cases [OF u p k, of now, unfolded pid]
      from ok have "unique_together d"
        by (simp add: db_ok_def)
      then consider (none) "likes_of_pair d (user_id u) pid = []"
        | (one) l where "likes_of_pair d (user_id u) pid = [l]"
        using likes_of_pair_cases by blast
      then show ?thesis
      proof cases
        case none
        then show ?thesis
          using db_ok_create [OF ok none k(2), of now] by (simp add: tc)
      next
        case one
        then have "l \<in> set (likes d)"
          by (rule likes_of_pair_single)
        then show ?thesis
          using one db_ok_delete [OF ok, of l] db_ok_save [OF ok _ k(2), of l]
          by (simp add: tc)
      qed
    qed
  qed
qed

lemma run_toggles_db_ok: "db_ok d \<Longrightarrow> db_ok (run_toggles d cs)"
proof (induction cs arbitrary: d)
  case Nil
  then show ?case by simp
next
  case (Cons c cs)
  obtain now rq pid where c: "c = (now, rq, pid)"
    by (cases c)
  from Cons.prems have "db_ok (snd (toggle_like d now rq pid))"
    by (rule toggle_like_db_ok)
  then show ?case
    unfolding c by (simp add: Cons.IH)
qed

lemma at_most_one_of_pair:
  "unique_together d \<Longrightarrow> length (likes_of_pair d uid pid) \<le> 1"
  using likes_of_pair_cases [of d uid pid] by auto

text \<open>
  C2. From a database that satisfies the integrity constraints, every call of
  \<^verbatim>\<open>toggle_like\<close> leaves a database that satisfies them, and so does every finite
  sequence of calls, whatever the kinds, users and posts; after the sequence, every
  pair of a user and a post has at most one reaction.
\<close>

theorem toggle_sequences_keep_one_reaction:
  assumes "db_ok d"
  shows "db_ok (snd (toggle_like d now rq q))
       \<and> db_ok (run_toggles d cs)
       \<and> length (likes_of_pair (run_toggles d cs) uid pid) \<le> 1"
proof -
  have a: "db_ok (snd (toggle_like d now rq q))"
    using assms by (rule toggle_like_db_ok)
  have b: "db_ok (run_toggles d cs)"
    using assms by (rule run_toggles_db_ok)
  then have "unique_together (run_toggles d cs)"
    by (simp add: db_ok_def)
  then have c: "length (likes_of_pair (run_toggles d cs) uid pid) \<le> 1"
    by (rule at_most_one_of_pair)
  from a b c show ?thesis by blast
qed

text \<open>The example databases satisfy the constraints.\<close>

lemma db_ok_db0: "db_ok db0"
  by (simp add: db_ok_def pk_ok_def unique_together_def choices_ok_def db0_def)

theorem toggle_sequences_keep_one_reaction_witness:
  "length (likes_of_pair
     (run_toggles db0
        [(5, rq_of alice ''like'', 1), (6, rq_of bob ''dislike'', 1),
         (7, rq_of alice ''dislike'', 1), (8, rq_of alice ''angry'', 1),
         (9, rq_of bob ''dislike'', 1), (10, rq_of bob ''like'', 2),
         (11, rq_of bob ''like'', 1)]) 1 1) \<le> 1
   \<and> likes_of_pair
     (run_toggles db0
        [(5, rq_of alice ''like'', 1), (6, rq_of bob ''dislike'', 1),
         (7, rq_of alice ''dislike'', 1), (8, rq_of alice ''angry'', 1),
         (9, rq_of bob ''dislike'', 1), (10, rq_of bob ''like'', 2),
         (11, rq_of bob ''like'', 1)]) 1 1 =
      [\<lparr>like_id = 1, like_user = alice, like_post = 1, reaction = ''dislike'',
        like_created_at = 5\<rparr>]"
proof -
  have e: "likes_of_pair
     (run_toggles db0
        [(5, rq_of alice ''like'', 1), (6, rq_of bob ''dislike'', 1),
         (7, rq_of alice ''dislike'', 1), (8, rq_of alice ''angry'', 1),
         (9, rq_of bob ''dislike'', 1), (10, rq_of bob ''like'', 2),
         (11, rq_of bob ''like'', 1)]) 1 1 =
      [\<lparr>like_id = 1, like_user = alice, like_post = 1, reaction = ''dislike'',
        like_created_at = 5\<rparr>]"
    by (simp add: toggle_like_def get_object_or_404_def get_or_create_def likes_of_pair_def
          requested_reaction_def rq_of_def db0_def post1_def alice_def bob_def
          LIKE_def DISLIKE_def Let_def Response_def delete_like_def save_like_def)
  show ?thesis
    using toggle_sequences_keep_one_reaction [OF db_ok_db0] e by simp
qed

subsection \<open>The transition and its answer\<close>

lemma filter_other_keys_remove1:
  assumes "distinct (map f xs)" and "l \<in> set xs"
  shows "filter (\<lambda>x. f x \<noteq> f l) xs = remove1 l xs"
  using assms
proof (induction xs)
  case Nil
  then show ?case by simp
next
  case (Cons a xs)
  show ?case
  proof (cases "a = l")
    case True
    with Cons.prems have "\<forall>x \<in> set xs. f x \<noteq> f l"
      by (auto simp: image_iff)
    with True show ?thesis by simp
  next
    case False
    with Cons.prems have "l \<in> set xs" and "f a \<noteq> f l"
      by (auto simp: image_iff)
    with Cons False show ?thesis by simp
  qed
qed

lemma likes_delete_like:
  assumes "pk_ok d" and "l \<in> set (likes d)"
  shows "likes (delete_like d l) = remove1 l (likes d)"
  using assms by (simp add: delete_like_def pk_ok_def filter_other_keys_remove1)

lemma likes_save_like:
  assumes "pk_ok d" and "l \<in> set (likes d)"
  shows "likes (save_like d (l\<lparr>reaction := k\<rparr>)) =
           map (\<lambda>x. if x = l then l\<lparr>reaction := k\<rparr> else x) (likes d)"
  using assms by (simp add: save_like_existing pk_ok_def map_update_row)

lemma likes_of_pair_delete:
  assumes "likes_of_pair d uid pid = [l]"
  shows "filter (\<lambda>x. user_id (like_user x) = uid \<and> like_post x = pid) (remove1 l (likes d)) = []"
proof -
  have "filter (\<lambda>x. user_id (like_user x) = uid \<and> like_post x = pid) (remove1 l (likes d)) =
        remove1 l (likes_of_pair d uid pid)"
    by (simp add: likes_of_pair_def filter_remove1)
  then show ?thesis
    using assms by simp
qed

lemma likes_of_pair_update:
  assumes "likes_of_pair d uid pid = [l]"
  shows "filter (\<lambda>x. user_id (like_user x) = uid \<and> like_post x = pid)
           (map (\<lambda>x. if x = l then l\<lparr>reaction := k\<rparr> else x) (likes d)) = [l\<lparr>reaction := k\<rparr>]"
proof -
  let ?P = "\<lambda>x. user_id (like_user x) = uid \<and> like_post x = pid"
  let ?g = "\<lambda>x. if x = l then l\<lparr>reaction := k\<rparr> else x"
  have "?P \<circ> ?g = ?P"
    by (auto simp: fun_eq_iff)
  then have "filter ?P (map ?g (likes d)) = map ?g (likes_of_pair d uid pid)"
    by (simp add: filter_map likes_of_pair_def)
  then show ?thesis
    using assms by simp
qed

lemma toggle_like_effect:
  assumes ok: "db_ok d" and u: "req_user rq = Some u"
    and post: "pid \<in> set (map post_id (posts d))"
    and r: "requested_reaction rq = JStr k" and k: "k = LIKE \<or> k = DISLIKE"
  shows "(likes_of_pair d (user_id u) pid = []
          \<and> toggle_like d now rq pid =
              (Inr (Response (LikeSerializer
                 \<lparr>like_id = Suc (like_seq d), like_user = u, like_post = pid,
                  reaction = k, like_created_at = now\<rparr>)),
               d\<lparr>likes := likes d @ [\<lparr>like_id = Suc (like_seq d), like_user = u,
                    like_post = pid, reaction = k, like_created_at = now\<rparr>],
                 like_seq := Suc (like_seq d)\<rparr>))
       \<or> (\<exists>l. likes_of_pair d (user_id u) pid = [l] \<and> reaction l = k
          \<and> toggle_like d now rq pid =
              (Inr (Response [(''status'', JStr ''reaction removed'')]), delete_like d l))
       \<or> (\<exists>l. likes_of_pair d (user_id u) pid = [l] \<and> reaction l \<noteq> k
          \<and> toggle_like d now rq pid =
              (Inr (Response (LikeSerializer (l\<lparr>reaction := k\<rparr>))),
               save_like d (l\<lparr>reaction := k\<rparr>)))"
proof -
  from post obtain p where p: "find (\<lambda>p. post_id p = pid) (posts d) = Some p"
    and pid: "post_id p = pid"
    using find_post_Some by blast
  note tc = toggle_like_cases [OF u p r k, of now, unfolded pid]
  from ok have "unique_together d"
    by (simp add: db_ok_def)
  then consider (none) "likes_of_pair d (user_id u) pid = []"
    | (one) l where "likes_of_pair d (user_id u) pid = [l]"
    using likes_of_pair_cases by blast
  then show ?thesis
  proof cases
    case none
    then show ?thesis by (simp add: tc)
  next
    case one
    then show ?thesis by (simp add: tc)
  qed
qed

text \<open>
  C1. For an existing post, an authenticated user and a requested kind \<^verbatim>\<open>like\<close> or
  \<^verbatim>\<open>dislike\<close>, \<^verbatim>\<open>toggle_like\<close> follows the three-branch table on the reaction
  the pair has stored: with none stored a row with the requested kind is appended; with
  the requested kind stored that row is removed; with the other kind stored that row
  (and no other) gets the requested kind. The stored reaction after the call is the one
  the table of the specification gives.
\<close>

theorem toggle_like_state_machine:
  assumes "db_ok d" and "req_user rq = Some u"
    and "pid \<in> set (map post_id (posts d))"
    and "requested_reaction rq = JStr k" and "k = LIKE \<or> k = DISLIKE"
  shows "stored_reaction (snd (toggle_like d now rq pid)) (user_id u) pid =
           spec_transition (stored_reaction d (user_id u) pid) k
       \<and> (likes_of_pair d (user_id u) pid = [] \<longrightarrow>
            likes (snd (toggle_like d now rq pid)) =
              likes d @ [\<lparr>like_id = Suc (like_seq d), like_user = u, like_post = pid,
                          reaction = k, like_created_at = now\<rparr>])
       \<and> (\<forall>l. likes_of_pair d (user_id u) pid = [l] \<and> reaction l = k \<longrightarrow>
            likes (snd (toggle_like d now rq pid)) = remove1 l (likes d))
       \<and> (\<forall>l. likes_of_pair d (user_id u) pid = [l] \<and> reaction l \<noteq> k \<longrightarrow>
            likes (snd (toggle_like d now rq pid)) =
              map (\<lambda>x. if x = l then l\<lparr>reaction := k\<rparr> else x) (likes d))"
proof -
  from assms(1) have pk: "pk_ok d"
    by (simp add: db_ok_def)
  from toggle_like_effect [OF assms, of now]
  consider (created) "likes_of_pair d (user_id u) pid = []"
      "snd (toggle_like d now rq pid) =
         d\<lparr>likes := likes d @ [\<lparr>like_id = Suc (like_seq d), like_user = u,
              like_post = pid, reaction = k, like_created_at = now\<rparr>],
           like_seq := Suc (like_seq d)\<rparr>"
    | (removed) l where "likes_of_pair d (user_id u) pid = [l]" "reaction l = k"
      "snd (toggle_like d now rq pid) = delete_like d l"
    | (changed) l where "likes_of_pair d (user_id u) pid = [l]" "reaction l \<noteq> k"
      "snd (toggle_like d now rq pid) = save_like d (l\<lparr>reaction := k\<rparr>)"
    by auto
  then show ?thesis
  proof cases
    case created
    then show ?thesis
      by (simp add: stored_reaction_def) (simp add: likes_of_pair_def)
  next
    case removed
    from removed(1) have l: "l \<in> set (likes d)"
      by (rule likes_of_pair_single)
    have e: "likes (snd (toggle_like d now rq pid)) = remove1 l (likes d)"
      by (simp add: removed(3) likes_delete_like [OF pk l])
    have "likes_of_pair (snd (toggle_like d now rq pid)) (user_id u) pid = []"
      unfolding likes_of_pair_def e using likes_of_pair_delete [OF removed(1)] .
    then show ?thesis
      using removed(1,2) e by (simp add: stored_reaction_def)
  next
    case changed
    from changed(1) have l: "l \<in> set (likes d)"
      by (rule likes_of_pair_single)
    have e: "likes (snd (toggle_like d now rq pid)) =
               map (\<lambda>x. if x = l then l\<lparr>reaction := k\<rparr> else x) (likes d)"
      by (simp add: changed(3) likes_save_like [OF pk l])
    have "likes_of_pair (snd (toggle_like d now rq pid)) (user_id u) pid = [l\<lparr>reaction := k\<rparr>]"
      unfolding likes_of_pair_def e using likes_of_pair_update [OF changed(1)] .
    then show ?thesis
      using changed(1,2) e by (simp add: stored_reaction_def)
  qed
qed

lemma db_ok_db_liked: "db_ok db_liked"
  by (simp add: db_ok_def pk_ok_def unique_together_def choices_ok_def db_liked_def LIKE_def)

lemma rq_of_facts:
  "req_user (rq_of u k) = Some u" "requested_reaction (rq_of u k) = JStr k"
  by (simp_all add: rq_of_def requested_reaction_def)

lemma post1_in_db0: "1 \<in> set (map post_id (posts db0))"
  by (simp add: db0_def post1_def)

lemma post1_in_db_liked: "1 \<in> set (map post_id (posts db_liked))"
  by (simp add: db_liked_def post1_def)

theorem toggle_like_state_machine_witness:
  "stored_reaction (snd (toggle_like db0 5 (rq_of alice ''like'') 1)) 1 1 = Some ''like''
   \<and> stored_reaction (snd (toggle_like db_liked 6 (rq_of alice ''like'') 1)) 1 1 = None
   \<and> stored_reaction (snd (toggle_like db_liked 6 (rq_of alice ''dislike'') 1)) 1 1 =
       Some ''dislike''"
proof -
  have s0: "stored_reaction db0 (Suc 0) (Suc 0) = None"
    by (simp add: stored_reaction_def likes_of_pair_def db0_def)
  have s1: "stored_reaction db_liked (Suc 0) (Suc 0) = Some ''like''"
    by (simp add: stored_reaction_def likes_of_pair_def db_liked_def alice_def)
  have a: "user_id alice = 1"
    by (simp add: alice_def)
  have l: "''like'' = LIKE \<or> ''like'' = DISLIKE" and dl: "''dislike'' = LIKE \<or> ''dislike'' = DISLIKE"
    by (simp_all add: LIKE_def DISLIKE_def)
  have t0: "stored_reaction (snd (toggle_like db0 5 (rq_of alice ''like'') 1)) (user_id alice) 1 =
             spec_transition (stored_reaction db0 (user_id alice) 1) ''like''"
    using toggle_like_state_machine [where d = db0 and rq = "rq_of alice ''like''" and u = alice and pid = 1
          and k = "''like''" and now = 5, OF db_ok_db0 rq_of_facts(1) post1_in_db0 rq_of_facts(2) l]
    by (rule conjunct1)
  have t1: "stored_reaction (snd (toggle_like db_liked 6 (rq_of alice ''like'') 1)) (user_id alice) 1 =
             spec_transition (stored_reaction db_liked (user_id alice) 1) ''like''"
    using toggle_like_state_machine [where d = db_liked and rq = "rq_of alice ''like''" and u = alice and pid = 1
          and k = "''like''" and now = 6, OF db_ok_db_liked rq_of_facts(1) post1_in_db_liked rq_of_facts(2) l]
    by (rule conjunct1)
  have t2: "stored_reaction (snd (toggle_like db_liked 6 (rq_of alice ''dislike'') 1)) (user_id alice) 1 =
             spec_transition (stored_reaction db_liked (user_id alice) 1) ''dislike''"
    using toggle_like_state_machine [where d = db_liked and rq = "rq_of alice ''dislike''" and u = alice and pid = 1
          and k = "''dislike''" and now = 6, OF db_ok_db_liked rq_of_facts(1) post1_in_db_liked rq_of_facts(2) dl]
    by (rule conjunct1)
  show ?thesis
    using t0 t1 t2 by (simp add: a s0 s1)
qed

text \<open>
  C4, as stated, fails: the answer to a toggle that creates a reaction is the serialized
  row, and it has no \<^verbatim>\<open>status\<close> field naming the transition.
\<close>

theorem toggle_like_response_counterexample:
  "fst (toggle_like db0 5 (rq_of alice ''like'') 1) =
     Inr \<lparr>status_code = 200,
          body = [(''id'', JInt 1), (''user'', JStr ''alice''), (''post'', JInt 1),
                  (''reaction'', JStr ''like''), (''created_at'', JDateTime 5)]\<rparr>
   \<and> \<not> spec_status_named
         [(''id'', JInt 1), (''user'', JStr ''alice''), (''post'', JInt 1),
          (''reaction'', JStr ''like''), (''created_at'', JDateTime 5)]"
  by (simp add: toggle_like_def get_object_or_404_def get_or_create_def likes_of_pair_def
        requested_reaction_def rq_of_def db0_def post1_def alice_def LIKE_def DISLIKE_def
        Let_def Response_def LikeSerializer_def spec_status_named_def)

text \<open>
  C4, amended. Every successful toggle (existing post, authenticated user, kind
  \<^verbatim>\<open>like\<close> or \<^verbatim>\<open>dislike\<close>) is answered with status 200. When the reaction
  is created or changed the body is the serialized row, with the fields \<^verbatim>\<open>id\<close>,
  \<^verbatim>\<open>user\<close>, \<^verbatim>\<open>post\<close>, \<^verbatim>\<open>reaction\<close> (the requested kind) and \<^verbatim>\<open>created_at\<close>,
  and no \<^verbatim>\<open>status\<close> field; when it is removed the body is the single field
  \<^verbatim>\<open>status = 'reaction removed'\<close>, and no \<^verbatim>\<open>reaction\<close> field.
\<close>

theorem toggle_like_response:
  assumes "db_ok d" and "req_user rq = Some u"
    and "pid \<in> set (map post_id (posts d))"
    and "requested_reaction rq = JStr k" and "k = LIKE \<or> k = DISLIKE"
  shows "http_status (fst (toggle_like d now rq pid)) = 200
       \<and> (likes_of_pair d (user_id u) pid = [] \<longrightarrow>
            fst (toggle_like d now rq pid) =
              Inr \<lparr>status_code = 200,
                   body = [(''id'', JInt (int (Suc (like_seq d)))),
                           (''user'', JStr (username u)),
                           (''post'', JInt (int pid)),
                           (''reaction'', JStr k),
                           (''created_at'', JDateTime now)]\<rparr>)
       \<and> (\<forall>l. likes_of_pair d (user_id u) pid = [l] \<and> reaction l = k \<longrightarrow>
            fst (toggle_like d now rq pid) =
              Inr \<lparr>status_code = 200, body = [(''status'', JStr ''reaction removed'')]\<rparr>)
       \<and> (\<forall>l. likes_of_pair d (user_id u) pid = [l] \<and> reaction l \<noteq> k \<longrightarrow>
            fst (toggle_like d now rq pid) =
              Inr \<lparr>status_code = 200,
                   body = [(''id'', JInt (int (like_id l))),
                           (''user'', JStr (username (like_user l))),
                           (''post'', JInt (int pid)),
                           (''reaction'', JStr k),
                           (''created_at'', JDateTime (like_created_at l))]\<rparr>)"
proof -
  from toggle_like_effect [OF assms, of now]
  consider (created) "likes_of_pair d (user_id u) pid = []"
      "fst (toggle_like d now rq pid) =
         Inr (Response (LikeSerializer
                 \<lparr>like_id = Suc (like_seq d), like_user = u, like_post = pid,
                  reaction = k, like_created_at = now\<rparr>))"
    | (removed) l where "likes_of_pair d (user_id u) pid = [l]" "reaction l = k"
      "fst (toggle_like d now rq pid) = Inr (Response [(''status'', JStr ''reaction removed'')])"
    | (changed) l where "likes_of_pair d (user_id u) pid = [l]" "reaction l \<noteq> k"
      "fst (toggle_like d now rq pid) = Inr (Response (LikeSerializer (l\<lparr>reaction := k\<rparr>)))"
    by auto
  then show ?thesis
  proof cases
    case created
    then show ?thesis
      by (simp add: Response_def LikeSerializer_def)
  next
    case removed
    then show ?thesis
      by (simp add: Response_def)
  next
    case changed
    from changed(1) have "like_post l = pid"
      by (rule likes_of_pair_single)
    with changed show ?thesis
      by (simp add: Response_def LikeSerializer_def)
  qed
qed

theorem toggle_like_response_witness:
  "fst (toggle_like db0 5 (rq_of alice ''like'') 1) =
     Inr \<lparr>status_code = 200,
          body = [(''id'', JInt 1), (''user'', JStr ''alice''), (''post'', JInt 1),
                  (''reaction'', JStr ''like''), (''created_at'', JDateTime 5)]\<rparr>
   \<and> fst (toggle_like db_liked 6 (rq_of alice ''like'') 1) =
     Inr \<lparr>status_code = 200, body = [(''status'', JStr ''reaction removed'')]\<rparr>
   \<and> fst (toggle_like db_liked 6 (rq_of alice ''dislike'') 1) =
     Inr \<lparr>status_code = 200,
          body = [(''id'', JInt 1), (''user'', JStr ''alice''), (''post'', JInt 1),
                  (''reaction'', JStr ''dislike''), (''created_at'', JDateTime 5)]\<rparr>"
proof -
  let ?row = "\<lparr>like_id = 1, like_user = alice, like_post = 1, reaction = ''like'',
               like_created_at = 5\<rparr>"
  have p0: "likes_of_pair db0 (user_id alice) 1 = []"
    by (simp add: likes_of_pair_def db0_def)
  have p1: "likes_of_pair db_liked (user_id alice) 1 = [?row]"
    by (simp add: likes_of_pair_def db_liked_def alice_def)
  have l: "''like'' = LIKE \<or> ''like'' = DISLIKE" and dl: "''dislike'' = LIKE \<or> ''dislike'' = DISLIKE"
    by (simp_all add: LIKE_def DISLIKE_def)
  have n: "username alice = ''alice''" "like_seq db0 = 0"
    by (simp_all add: alice_def db0_def)
  note r0 = toggle_like_response [where d = db0 and rq = "rq_of alice ''like''" and u = alice and pid = 1
          and k = "''like''" and now = 5, OF db_ok_db0 rq_of_facts(1) post1_in_db0 rq_of_facts(2) l]
  note r1 = toggle_like_response [where d = db_liked and rq = "rq_of alice ''like''" and u = alice and pid = 1
          and k = "''like''" and now = 6, OF db_ok_db_liked rq_of_facts(1) post1_in_db_liked rq_of_facts(2) l]
  note r2 = toggle_like_response [where d = db_liked and rq = "rq_of alice ''dislike''" and u = alice and pid = 1
          and k = "''dislike''" and now = 6, OF db_ok_db_liked rq_of_facts(1) post1_in_db_liked rq_of_facts(2) dl]
  have c0: "fst (toggle_like db0 5 (rq_of alice ''like'') 1) =
     Inr \<lparr>status_code = 200,
          body = [(''id'', JInt 1), (''user'', JStr ''alice''), (''post'', JInt 1),
                  (''reaction'', JStr ''like''), (''created_at'', JDateTime 5)]\<rparr>"
    using r0 [unfolded p0] by (simp add: n)
  have c1: "fst (toggle_like db_liked 6 (rq_of alice ''like'') 1) =
     Inr \<lparr>status_code = 200, body = [(''status'', JStr ''reaction removed'')]\<rparr>"
    using r1 [unfolded p1] by simp
  have c2: "fst (toggle_like db_liked 6 (rq_of alice ''dislike'') 1) =
     Inr \<lparr>status_code = 200,
          body = [(''id'', JInt 1), (''user'', JStr ''alice''), (''post'', JInt 1),
                  (''reaction'', JStr ''dislike''), (''created_at'', JDateTime 5)]\<rparr>"
    using r2 [unfolded p1] by (simp add: n)
  from c0 c1 c2 show ?thesis
    by blast
qed

subsection \<open>What a toggle writes\<close>

lemma toggle_like_success:
  assumes "toggle_like d now rq pid = (Inr r, d')" and "status_code r = 200"
  shows "pid \<in> set (map post_id (posts d))
       \<and> (\<exists>k. requested_reaction rq = JStr k \<and> (k = LIKE \<or> k = DISLIKE))"
proof -
  have p: "pid \<in> set (map post_id (posts d))"
  proof (rule ccontr)
    assume "pid \<notin> set (map post_id (posts d))"
    then have "find (\<lambda>p. post_id p = pid) (posts d) = None"
      by (simp add: find_post_None)
    with assms(1) show False
      by (simp add: toggle_like_def get_object_or_404_def split: option.splits)
  qed
  then obtain p where f: "find (\<lambda>p. post_id p = pid) (posts d) = Some p"
    using find_post_Some by blast
  have "requested_reaction rq \<in> set [JStr LIKE, JStr DISLIKE]"
  proof (rule ccontr)
    assume "requested_reaction rq \<notin> set [JStr LIKE, JStr DISLIKE]"
    with assms f show False
      by (auto simp: toggle_like_def get_object_or_404_def split: option.splits)
  qed
  with p show ?thesis by auto
qed

lemma filter_others_remove1:
  assumes "\<not> Q l"
  shows "filter Q (remove1 l xs) = filter Q xs"
  using assms by (simp add: filter_remove1 remove1_idem)

lemma filter_others_update:
  assumes "\<not> Q l" and "\<not> Q l'"
  shows "filter Q (map (\<lambda>x. if x = l then l' else x) xs) = filter Q xs"
  using assms by (induction xs) auto

text \<open>
  C7. A successful call of \<^verbatim>\<open>toggle_like\<close> (answered with status 200) writes
  exactly one row of reactions, a row of the acting user and the post: it appends one
  row, or removes one row, or replaces one row by the same row with the requested kind.
  The reactions of every other pair, all comments and all posts are as before.
\<close>

theorem toggle_like_single_write:
  assumes "db_ok d" and "req_user rq = Some u"
    and "toggle_like d now rq pid = (Inr r, d')" and "status_code r = 200"
  shows "posts d' = posts d \<and> comments d' = comments d
       \<and> filter (\<lambda>l. \<not> (user_id (like_user l) = user_id u \<and> like_post l = pid)) (likes d') =
         filter (\<lambda>l. \<not> (user_id (like_user l) = user_id u \<and> like_post l = pid)) (likes d)
       \<and> ((\<exists>l. user_id (like_user l) = user_id u \<and> like_post l = pid
                \<and> likes d' = likes d @ [l] \<and> length (likes d') = Suc (length (likes d)))
          \<or> (\<exists>l \<in> set (likes d). user_id (like_user l) = user_id u \<and> like_post l = pid
                \<and> likes d' = remove1 l (likes d) \<and> Suc (length (likes d')) = length (likes d))
          \<or> (\<exists>i < length (likes d). \<exists>l'.
                user_id (like_user (likes d ! i)) = user_id u \<and> like_post (likes d ! i) = pid
                \<and> l' = (likes d ! i)\<lparr>reaction := the_str (requested_reaction rq)\<rparr>
                \<and> l' \<noteq> likes d ! i
                \<and> likes d' = (likes d)[i := l']))"
proof -
  let ?Q = "\<lambda>l. \<not> (user_id (like_user l) = user_id u \<and> like_post l = pid)"
  from toggle_like_success [OF assms(3,4)] obtain k
    where post: "pid \<in> set (map post_id (posts d))"
      and r: "requested_reaction rq = JStr k" and k: "k = LIKE \<or> k = DISLIKE"
    by blast
  from assms(1) have pk: "pk_ok d"
    by (simp add: db_ok_def)
  then have dist: "distinct (likes d)"
    by (auto simp: pk_ok_def distinct_map)
  from toggle_like_effect [OF assms(1,2) post r k, of now] assms(3)
  consider (created) "likes_of_pair d (user_id u) pid = []"
      "d' = d\<lparr>likes := likes d @ [\<lparr>like_id = Suc (like_seq d), like_user = u,
              like_post = pid, reaction = k, like_created_at = now\<rparr>],
           like_seq := Suc (like_seq d)\<rparr>"
    | (removed) l where "likes_of_pair d (user_id u) pid = [l]" "reaction l = k"
      "d' = delete_like d l"
    | (changed) l where "likes_of_pair d (user_id u) pid = [l]" "reaction l \<noteq> k"
      "d' = save_like d (l\<lparr>reaction := k\<rparr>)"
    by auto
  then show ?thesis
  proof cases
    case created
    then show ?thesis by simp
  next
    case removed
    note l = likes_of_pair_single [OF removed(1)]
    have e: "likes d' = remove1 l (likes d)"
      by (simp add: removed(3) likes_delete_like [OF pk l(1)])
    have f: "posts d' = posts d" "comments d' = comments d"
      by (simp_all add: removed(3) delete_like_def)
    have o: "filter ?Q (likes d') = filter ?Q (likes d)"
      unfolding e using l(2,3) by (intro filter_others_remove1) simp
    have n: "Suc (length (likes d')) = length (likes d)"
      unfolding e using l(1) by (simp add: length_remove1) (cases "likes d"; simp)
    from e f o n l show ?thesis
      by blast
  next
    case changed
    note l = likes_of_pair_single [OF changed(1)]
    let ?l' = "l\<lparr>reaction := k\<rparr>"
    have e: "likes d' = map (\<lambda>x. if x = l then ?l' else x) (likes d)"
      by (simp add: changed(3) likes_save_like [OF pk l(1)])
    have f: "posts d' = posts d" "comments d' = comments d"
      by (simp_all add: changed(3) save_like_existing [OF l(1)])
    have o: "filter ?Q (likes d') = filter ?Q (likes d)"
      unfolding e using l(2,3) by (intro filter_others_update) simp_all
    from l(1) obtain i where i: "i < length (likes d)" "likes d ! i = l"
      by (auto simp: in_set_conv_nth)
    have u: "map (\<lambda>x. if x = l then ?l' else x) (likes d) = (likes d)[i := ?l']"
      using dist i
      by (auto simp: list_eq_iff_nth_eq nth_list_update nth_eq_iff_index_eq)
    have ne: "?l' \<noteq> l"
      using changed(2) by (metis Like.select_convs(4) Like.surjective Like.update_convs(4))
    from e f o i u ne l r show ?thesis
      by auto
  qed
qed

theorem toggle_like_single_write_witness:
  "posts (snd (toggle_like db_liked 6 (rq_of bob ''like'') 1)) = [post1]
   \<and> comments (snd (toggle_like db_liked 6 (rq_of bob ''like'') 1)) = []
   \<and> filter (\<lambda>l. \<not> (user_id (like_user l) = user_id bob \<and> like_post l = 1))
        (likes (snd (toggle_like db_liked 6 (rq_of bob ''like'') 1))) =
      [\<lparr>like_id = 1, like_user = alice, like_post = 1, reaction = ''like'',
        like_created_at = 5\<rparr>]"
proof -
  let ?new = "\<lparr>like_id = 2, like_user = bob, like_post = 1, reaction = ''like'',
               like_created_at = 6\<rparr>"
  let ?r = "\<lparr>status_code = 200, body = LikeSerializer ?new\<rparr>"
  let ?d' = "db_liked\<lparr>likes := likes db_liked @ [?new], like_seq := 2\<rparr>"
  have ev: "toggle_like db_liked 6 (rq_of bob ''like'') 1 = (Inr ?r, ?d')"
    by (simp add: toggle_like_def get_object_or_404_def get_or_create_def likes_of_pair_def
          requested_reaction_def rq_of_def db_liked_def post1_def alice_def bob_def
          LIKE_def DISLIKE_def Let_def Response_def numeral_2_eq_2)
  have st: "status_code ?r = 200"
    by simp
  have base: "posts db_liked = [post1]" "comments db_liked = []"
    "filter (\<lambda>l. \<not> (user_id (like_user l) = user_id bob \<and> like_post l = 1)) (likes db_liked) =
       [\<lparr>like_id = 1, like_user = alice, like_post = 1, reaction = ''like'',
         like_created_at = 5\<rparr>]"
    by (simp_all add: db_liked_def alice_def bob_def)
  show ?thesis
    using toggle_like_single_write [OF db_ok_db_liked rq_of_facts(1) ev st] base
    unfolding ev by simp
qed

text \<open>
  Two calls in a row with the same kind, from no stored reaction: the first creates
  the row and the second removes it.
\<close>

lemma two_likes_in_a_row:
  "likes (run_toggles db0 [(5, rq_of alice ''like'', 1), (6, rq_of alice ''like'', 1)]) = []"
  by (simp add: toggle_like_def get_object_or_404_def get_or_create_def likes_of_pair_def
        requested_reaction_def rq_of_def db0_def post1_def alice_def
        LIKE_def DISLIKE_def Let_def Response_def delete_like_def)

subsection \<open>Statistics\<close>

lemma reactions_split:
  assumes "list_all (\<lambda>l. reaction l = LIKE \<or> reaction l = DISLIKE) xs"
  shows "length (filter (\<lambda>l. like_post l = pid) xs) =
         length (filter (\<lambda>l. like_post l = pid \<and> reaction l = LIKE) xs)
       + length (filter (\<lambda>l. like_post l = pid \<and> reaction l = DISLIKE) xs)"
  using assms by (induction xs) (auto simp: LIKE_neq_DISLIKE)

text \<open>
  C3. For an existing post, \<^verbatim>\<open>post_stats\<close> answers 200 with four counts taken
  from the stored rows: the reactions of the post with kind \<^verbatim>\<open>like\<close>, those with
  kind \<^verbatim>\<open>dislike\<close>, the comments of the post, and all reactions of the post. With
  every stored reaction one of the two kinds, the last count is the sum of the first
  two. On a post with no reactions and no comments all four counts are 0.
\<close>

theorem post_stats_counts:
  assumes "pid \<in> set (map post_id (posts d))"
  shows "post_stats d pid =
           Inr \<lparr>status_code = 200,
                body =
                  [(''likes_count'',
                      JInt (int (length (filter (\<lambda>l. like_post l = pid \<and> reaction l = LIKE)
                                           (likes d))))),
                   (''dislikes_count'',
                      JInt (int (length (filter (\<lambda>l. like_post l = pid \<and> reaction l = DISLIKE)
                                           (likes d))))),
                   (''comments_count'',
                      JInt (int (length (filter (\<lambda>c. comment_post c = pid) (comments d))))),
                   (''total_reactions'',
                      JInt (int (length (filter (\<lambda>l. like_post l = pid) (likes d)))))]\<rparr>
       \<and> (choices_ok d \<longrightarrow>
            length (filter (\<lambda>l. like_post l = pid) (likes d)) =
              length (filter (\<lambda>l. like_post l = pid \<and> reaction l = LIKE) (likes d))
            + length (filter (\<lambda>l. like_post l = pid \<and> reaction l = DISLIKE) (likes d)))
       \<and> (filter (\<lambda>l. like_post l = pid) (likes d) = []
            \<and> filter (\<lambda>c. comment_post c = pid) (comments d) = [] \<longrightarrow>
            post_stats d pid =
              Inr \<lparr>status_code = 200,
                   body = [(''likes_count'', JInt 0), (''dislikes_count'', JInt 0),
                           (''comments_count'', JInt 0), (''total_reactions'', JInt 0)]\<rparr>)"
proof -
  from assms obtain p where p: "find (\<lambda>p. post_id p = pid) (posts d) = Some p"
    and pid: "post_id p = pid"
    using find_post_Some by blast
  have a: "post_stats d pid =
           Inr \<lparr>status_code = 200,
                body =
                  [(''likes_count'',
                      JInt (int (length (filter (\<lambda>l. like_post l = pid \<and> reaction l = LIKE)
                                           (likes d))))),
                   (''dislikes_count'',
                      JInt (int (length (filter (\<lambda>l. like_post l = pid \<and> reaction l = DISLIKE)
                                           (likes d))))),
                   (''comments_count'',
                      JInt (int (length (filter (\<lambda>c. comment_post c = pid) (comments d))))),
                   (''total_reactions'',
                      JInt (int (length (filter (\<lambda>l. like_post l = pid) (likes d)))))]\<rparr>"
    by (simp add: post_stats_def get_object_or_404_def p pid Response_def)
  have b: "choices_ok d \<longrightarrow>
            length (filter (\<lambda>l. like_post l = pid) (likes d)) =
              length (filter (\<lambda>l. like_post l = pid \<and> reaction l = LIKE) (likes d))
            + length (filter (\<lambda>l. like_post l = pid \<and> reaction l = DISLIKE) (likes d))"
    by (simp add: choices_ok_def reactions_split)
  have c: "filter (\<lambda>l. like_post l = pid) (likes d) = []
            \<and> filter (\<lambda>c. comment_post c = pid) (comments d) = [] \<longrightarrow>
            post_stats d pid =
              Inr \<lparr>status_code = 200,
                   body = [(''likes_count'', JInt 0), (''dislikes_count'', JInt 0),
                           (''comments_count'', JInt 0), (''total_reactions'', JInt 0)]\<rparr>"
  proof
    assume e: "filter (\<lambda>l. like_post l = pid) (likes d) = []
            \<and> filter (\<lambda>c. comment_post c = pid) (comments d) = []"
    then have "filter (\<lambda>l. like_post l = pid \<and> reaction l = LIKE) (likes d) = []"
      and "filter (\<lambda>l. like_post l = pid \<and> reaction l = DISLIKE) (likes d) = []"
      by (auto simp: filter_empty_conv)
    with e show "post_stats d pid =
              Inr \<lparr>status_code = 200,
                   body = [(''likes_count'', JInt 0), (''dislikes_count'', JInt 0),
                           (''comments_count'', JInt 0), (''total_reactions'', JInt 0)]\<rparr>"
      unfolding a by simp
  qed
  from a b c show ?thesis
    by blast
qed

theorem post_stats_counts_witness:
  "post_stats db_stats 1 =
     Inr \<lparr>status_code = 200,
          body = [(''likes_count'', JInt 2), (''dislikes_count'', JInt 1),
                  (''comments_count'', JInt 2), (''total_reactions'', JInt 3)]\<rparr>
   \<and> post_stats db0 1 =
     Inr \<lparr>status_code = 200,
          body = [(''likes_count'', JInt 0), (''dislikes_count'', JInt 0),
                  (''comments_count'', JInt 0), (''total_reactions'', JInt 0)]\<rparr>"
proof -
  have ps: "1 \<in> set (map post_id (posts db_stats))"
    by (simp add: db_stats_def post1_def)
  have n: "length (filter (\<lambda>l. like_post l = 1 \<and> reaction l = LIKE) (likes db_stats)) = 2"
    "length (filter (\<lambda>l. like_post l = 1 \<and> reaction l = DISLIKE) (likes db_stats)) = 1"
    "length (filter (\<lambda>c. comment_post c = 1) (comments db_stats)) = 2"
    "length (filter (\<lambda>l. like_post l = 1) (likes db_stats)) = 3"
    by (simp_all add: db_stats_def LIKE_def DISLIKE_def)
  have e: "filter (\<lambda>l. like_post l = 1) (likes db0) = []
           \<and> filter (\<lambda>c. comment_post c = 1) (comments db0) = []"
    by (simp add: db0_def)
  have s: "post_stats db_stats 1 =
     Inr \<lparr>status_code = 200,
          body = [(''likes_count'', JInt 2), (''dislikes_count'', JInt 1),
                  (''comments_count'', JInt 2), (''total_reactions'', JInt 3)]\<rparr>"
    using post_stats_counts [OF ps] unfolding n by simp
  have z: "post_stats db0 1 =
     Inr \<lparr>status_code = 200,
          body = [(''likes_count'', JInt 0), (''dislikes_count'', JInt 0),
                  (''comments_count'', JInt 0), (''total_reactions'', JInt 0)]\<rparr>"
    using post_stats_counts [OF post1_in_db0] e by blast
  from s z show ?thesis ..
qed

end
